theory Spec2Isabelle
  imports Main "HOL-Library.Char_ord" "HOL-Library.List_Lexorder"
begin

section \<open>Data model (logger.h)\<close>

text \<open>
  \<^verbatim>\<open>enum class LogLevel { Debug, Info, Warn, Error }\<close>,
  \<^verbatim>\<open>struct Attribute { std::string key; std::string value; }\<close> and
  \<^verbatim>\<open>struct LogMessage\<close>. A \<^verbatim>\<open>std::string\<close> is a byte string, a
  \<^verbatim>\<open>std::map<std::string, V>\<close> is the list of its entries in ascending key
  order (that of \<^verbatim>\<open>std::string\<close>'s comparison: bytewise
  lexicographic, a proper prefix first), and a \<^verbatim>\<open>system_clock::time_point\<close>
  is its count of nanoseconds since the epoch.
\<close>

datatype LogLevel = Debug | Info | Warn | Error

record Attribute =
  attr_key :: string
  attr_value :: string

type_synonym 'v std_map = "(string \<times> 'v) list"

record LogMessage =
  timestamp :: int
  body :: string
  level :: LogLevel
  attributes :: "string std_map"

text \<open>\<^verbatim>\<open>m[k] = v\<close> on a \<^verbatim>\<open>std::map\<close>: the entry of \<open>k\<close> is replaced when
  there is one, and inserted at its place in key order otherwise.\<close>

fun map_assign :: "string \<Rightarrow> 'v \<Rightarrow> 'v std_map \<Rightarrow> 'v std_map" where
  "map_assign k v [] = [(k, v)]"
| "map_assign k v ((k', v') # m) =
     (if k < k' then (k, v) # (k', v') # m
      else if k = k' then (k, v) # m
      else (k', v') # map_assign k v m)"

text \<open>The invariant of a \<^verbatim>\<open>std::map\<close>: keys strictly ascending.\<close>

definition is_std_map :: "'v std_map \<Rightarrow> bool" where
  "is_std_map m = sorted_wrt (<) (map fst m)"

fun logLevelToString :: "LogLevel \<Rightarrow> string" where
  "logLevelToString Debug = ''DEBUG''"
| "logLevelToString Info = ''INFO''"
| "logLevelToString Warn = ''WARNING''"
| "logLevelToString Error = ''ERROR''"

section \<open>Construction\<close>

text \<open>The members of \<^verbatim>\<open>class Logger\<close> that the constructor fixes; a member
  \<^verbatim>\<open>x_\<close> of \<^verbatim>\<open>Logger\<close> is the field \<open>l_x\<close>, and one of \<^verbatim>\<open>LoggerBuilder\<close>
  is \<open>b_x\<close> (a name cannot end with an underscore here).
  \<^verbatim>\<open>size_t maxBatchSize_\<close> is only ever compared with a vector's size, so it is
  a natural number here; \<^verbatim>\<open>batchInterval_\<close> is a count of milliseconds.\<close>

record Logger =
  l_serviceName :: string
  l_endpoint :: string
  l_token :: string
  l_passthrough :: bool
  l_noop :: bool
  l_maxBatchSize :: nat
  l_batchInterval :: int

definition formatEndpoint :: "string \<Rightarrow> bool \<Rightarrow> string" where
  "formatEndpoint endpoint insecure =
     (if insecure then ''http://'' @ endpoint @ ''/api/message''
      else ''https://'' @ endpoint @ ''/api/message'')"

text \<open>\<^verbatim>\<open>Logger::Logger\<close> with all eight arguments given (member initialiser
  list of the constructor).\<close>

definition Logger_ctor ::
  "string \<Rightarrow> string \<Rightarrow> string \<Rightarrow> bool \<Rightarrow> bool \<Rightarrow> bool \<Rightarrow> nat \<Rightarrow> int \<Rightarrow> Logger" where
  "Logger_ctor name endpoint token passthrough insecure noop maxBatchSize batchInterval =
     \<lparr> l_serviceName = name,
       l_endpoint = formatEndpoint endpoint insecure,
       l_token = token,
       l_passthrough = passthrough,
       l_noop = noop,
       l_maxBatchSize = maxBatchSize,
       l_batchInterval = batchInterval \<rparr>"

text \<open>The default arguments of the constructor's declaration in logger.h:
  \<^verbatim>\<open>passthrough = false, insecure = false, noop = false, maxBatchSize = 100,
  batchInterval = std::chrono::milliseconds(100)\<close>. They are kept as a record of
  their own so that each default can be read back.\<close>

record CtorDefaults =
  default_passthrough :: bool
  default_insecure :: bool
  default_noop :: bool
  default_maxBatchSize :: nat
  default_batchInterval :: int

definition Logger_default_args :: CtorDefaults where
  "Logger_default_args =
     \<lparr> default_passthrough = False,
       default_insecure = False,
       default_noop = False,
       default_maxBatchSize = 100,
       default_batchInterval = 100 \<rparr>"

text \<open>A direct construction that gives only the three mandatory arguments.\<close>

definition Logger_ctor3 :: "string \<Rightarrow> string \<Rightarrow> string \<Rightarrow> Logger" where
  "Logger_ctor3 name endpoint token =
     Logger_ctor name endpoint token
       (default_passthrough Logger_default_args)
       (default_insecure Logger_default_args)
       (default_noop Logger_default_args)
       (default_maxBatchSize Logger_default_args)
       (default_batchInterval Logger_default_args)"

text \<open>\<^verbatim>\<open>class LoggerBuilder\<close>: its members, its constructor, its setters and
  \<^verbatim>\<open>build\<close>.\<close>

record LoggerBuilder =
  b_serviceName :: string
  b_endpoint :: string
  b_token :: string
  b_passthrough :: bool
  b_insecure :: bool
  b_noop :: bool
  b_maxBatchSize :: nat
  b_batchInterval :: int

definition LoggerBuilder_ctor :: LoggerBuilder where
  "LoggerBuilder_ctor =
     \<lparr> b_serviceName = ''my_server'',
       b_endpoint = ''ingress.vigilant.run'',
       b_token = ''tk_1234567890'',
       b_passthrough = True,
       b_insecure = False,
       b_noop = False,
       b_maxBatchSize = 1000,
       b_batchInterval = 100 \<rparr>"

definition withName :: "string \<Rightarrow> LoggerBuilder \<Rightarrow> LoggerBuilder" where
  "withName name b = b\<lparr> b_serviceName := name \<rparr>"

definition withEndpoint :: "string \<Rightarrow> LoggerBuilder \<Rightarrow> LoggerBuilder" where
  "withEndpoint endpoint b = b\<lparr> b_endpoint := endpoint \<rparr>"

definition withToken :: "string \<Rightarrow> LoggerBuilder \<Rightarrow> LoggerBuilder" where
  "withToken token b = b\<lparr> b_token := token \<rparr>"

definition withPassthrough :: "bool \<Rightarrow> LoggerBuilder \<Rightarrow> LoggerBuilder" where
  "withPassthrough passthrough b = b\<lparr> b_passthrough := passthrough \<rparr>"

definition withInsecure :: "bool \<Rightarrow> LoggerBuilder \<Rightarrow> LoggerBuilder" where
  "withInsecure insecure b = b\<lparr> b_insecure := insecure \<rparr>"

definition withNoop :: "bool \<Rightarrow> LoggerBuilder \<Rightarrow> LoggerBuilder" where
  "withNoop noop b = b\<lparr> b_noop := noop \<rparr>"

definition withMaxBatchSize :: "nat \<Rightarrow> LoggerBuilder \<Rightarrow> LoggerBuilder" where
  "withMaxBatchSize maxBatchSize b = b\<lparr> b_maxBatchSize := maxBatchSize \<rparr>"

definition withBatchInterval :: "int \<Rightarrow> LoggerBuilder \<Rightarrow> LoggerBuilder" where
  "withBatchInterval batchInterval b = b\<lparr> b_batchInterval := batchInterval \<rparr>"

definition build :: "LoggerBuilder \<Rightarrow> Logger" where
  "build b =
     Logger_ctor (b_serviceName b) (b_endpoint b) (b_token b) (b_passthrough b)
       (b_insecure b) (b_noop b) (b_maxBatchSize b) (b_batchInterval b)"

section \<open>Building an event (Logger::logMessage, Logger::logPassthrough)\<close>

text \<open>
  The mutable part of a \<^verbatim>\<open>Logger\<close> and what it does to the outside:
  \<^verbatim>\<open>stopWorker_\<close> and \<^verbatim>\<open>logQueue_\<close> (front of the queue first), the local
  vector \<^verbatim>\<open>batch\<close> of \<^verbatim>\<open>runBatcher\<close>, whether \<^verbatim>\<open>runBatcher\<close> has left its
  loop, the lines written to \<^verbatim>\<open>std::cout\<close> (each one ended by \<^verbatim>\<open>std::endl\<close>) and
  the requests handed to libcurl, oldest first.
\<close>

datatype json = JNull | JString string | JArray "json list" | JObject "json std_map"

record HttpPost =
  url :: string
  header :: string
  postFields :: json

record LoggerState =
  stopWorker :: bool
  logQueue :: "LogMessage list"
  batch :: "LogMessage list"
  workerExited :: bool
  cout :: "string list"
  posted :: "HttpPost list"

text \<open>State right after the constructor: nothing queued, nothing written.\<close>

definition initialState :: LoggerState where
  "initialState =
     \<lparr> stopWorker = False, logQueue = [], batch = [], workerExited = False,
       cout = [], posted = [] \<rparr>"

text \<open>Lines 110 to 118 of \<^verbatim>\<open>logMessage\<close>: the attribute map of the new event. The
  error is \<open>None\<close> for a null \<^verbatim>\<open>err\<close> and \<open>Some w\<close> with \<open>w\<close> the text of
  \<^verbatim>\<open>err->what()\<close> otherwise.\<close>

definition eventAttributes :: "Logger \<Rightarrow> string option \<Rightarrow> Attribute list \<Rightarrow> string std_map" where
  "eventAttributes L err attrs =
     (let a0 = map_assign ''service.name'' (l_serviceName L) [];
          a1 = fold (\<lambda>attr m. map_assign (attr_key attr) (attr_value attr) m) attrs a0
      in case err of None \<Rightarrow> a1 | Some w \<Rightarrow> map_assign ''error'' w a1)"

definition passthroughLine :: "LogLevel \<Rightarrow> string \<Rightarrow> Attribute list \<Rightarrow> string" where
  "passthroughLine lvl message attrs =
     fold (\<lambda>a oss. oss @ attr_key a @ ''='' @ attr_value a @ '' '') attrs
       (''['' @ logLevelToString lvl @ ''] '' @ message @ '' {'') @ ''}''"

definition logPassthrough ::
  "Logger \<Rightarrow> LogLevel \<Rightarrow> string \<Rightarrow> Attribute list \<Rightarrow> LoggerState \<Rightarrow> LoggerState" where
  "logPassthrough L lvl message attrs s =
     (if \<not> l_passthrough L then s
      else s\<lparr> cout := cout s @ [passthroughLine lvl message attrs] \<rparr>)"

text \<open>\<open>now\<close> is what \<^verbatim>\<open>std::chrono::system_clock::now()\<close> returns in the call.\<close>

definition logMessage ::
  "Logger \<Rightarrow> int \<Rightarrow> LogLevel \<Rightarrow> string \<Rightarrow> string option \<Rightarrow> Attribute list
     \<Rightarrow> LoggerState \<Rightarrow> LoggerState" where
  "logMessage L now lvl message err attrs s =
     (if l_noop L then s
      else
        let lm = \<lparr> timestamp = now, body = message, level = lvl,
                   attributes = eventAttributes L err attrs \<rparr>;
            s1 = s\<lparr> logQueue := logQueue s @ [lm] \<rparr>
        in logPassthrough L lvl message attrs s1)"

definition debug :: "Logger \<Rightarrow> int \<Rightarrow> string \<Rightarrow> Attribute list \<Rightarrow> LoggerState \<Rightarrow> LoggerState" where
  "debug L now message attrs s = logMessage L now Debug message None attrs s"

definition info :: "Logger \<Rightarrow> int \<Rightarrow> string \<Rightarrow> Attribute list \<Rightarrow> LoggerState \<Rightarrow> LoggerState" where
  "info L now message attrs s = logMessage L now Info message None attrs s"

definition warn :: "Logger \<Rightarrow> int \<Rightarrow> string \<Rightarrow> Attribute list \<Rightarrow> LoggerState \<Rightarrow> LoggerState" where
  "warn L now message attrs s = logMessage L now Warn message None attrs s"

definition error ::
  "Logger \<Rightarrow> int \<Rightarrow> string \<Rightarrow> string option \<Rightarrow> Attribute list \<Rightarrow> LoggerState \<Rightarrow> LoggerState" where
  "error L now message err attrs s = logMessage L now Error message err attrs s"

section \<open>Sending a batch (Logger::sendBatch, Logger::timePointToString)\<close>

text \<open>Integer division and remainder of C++ (the quotient is truncated towards zero,
  the remainder has the sign of the dividend).\<close>

definition cpp_div :: "int \<Rightarrow> int \<Rightarrow> int" where
  "cpp_div a b = sgn a * sgn b * (\<bar>a\<bar> div \<bar>b\<bar>)"

definition cpp_rem :: "int \<Rightarrow> int \<Rightarrow> int" where
  "cpp_rem a b = a - b * cpp_div a b"

text \<open>What \<^verbatim>\<open>operator<<\<close> writes for an integer, and the padding that
  \<^verbatim>\<open>std::setfill(c)\<close> and \<^verbatim>\<open>std::setw(w)\<close> put before it.\<close>

fun show_nat :: "nat \<Rightarrow> string" where
  "show_nat n =
     (if n < 10 then [char_of (48 + n)]
      else show_nat (n div 10) @ [char_of (48 + n mod 10)])"

declare show_nat.simps [simp del]

definition show_int :: "int \<Rightarrow> string" where
  "show_int i = (if i < 0 then ''-'' @ show_nat (nat (- i)) else show_nat (nat i))"

definition setfill_setw :: "char \<Rightarrow> nat \<Rightarrow> string \<Rightarrow> string" where
  "setfill_setw c w str = replicate (w - length str) c @ str"

text \<open>\<^verbatim>\<open>Logger::timePointToString\<close>. The parameter \<open>strftime_gmtime\<close> stands for
  the C library: it gives, for a \<^verbatim>\<open>time_t\<close>, the text that
  \<^verbatim>\<open>std::strftime(buffer, 32, "%Y-%m-%dT%H:%M:%S", std::gmtime(&tt))\<close> leaves in
  the buffer.\<close>

definition timePointToString :: "(int \<Rightarrow> string) \<Rightarrow> int \<Rightarrow> string" where
  "timePointToString strftime_gmtime tp =
     (let tt = cpp_div tp 1000000000;
          ms = cpp_div (cpp_rem tp 1000000000) 1000000
      in strftime_gmtime tt @ ''.'' @ setfill_setw (CHR ''0'') 3 (show_int ms) @ ''Z'')"

text \<open>The two operations of \<^verbatim>\<open>nlohmann::json\<close> that \<^verbatim>\<open>sendBatch\<close> uses.
  \<^verbatim>\<open>j[k] = v\<close> turns a null value into an object first; \<^verbatim>\<open>sendBatch\<close> applies
  it to null values and objects only, and \<^verbatim>\<open>push_back\<close> to arrays only (on
  other values the library raises a type error, which is the value \<open>None\<close>).\<close>

fun json_assign :: "string \<Rightarrow> json \<Rightarrow> json \<Rightarrow> json option" where
  "json_assign k v JNull = Some (JObject [(k, v)])"
| "json_assign k v (JObject m) = Some (JObject (map_assign k v m))"
| "json_assign k v j = None"

fun json_push_back :: "json \<Rightarrow> json \<Rightarrow> json option" where
  "json_push_back v JNull = Some (JArray [v])"
| "json_push_back v (JArray xs) = Some (JArray (xs @ [v]))"
| "json_push_back v j = None"

text \<open>A loop that updates a json value and stops at the first type error.\<close>

fun json_foreach :: "('a \<Rightarrow> json \<Rightarrow> json option) \<Rightarrow> 'a list \<Rightarrow> json \<Rightarrow> json option" where
  "json_foreach f [] j = Some j"
| "json_foreach f (x # xs) j = (case f x j of None \<Rightarrow> None | Some j' \<Rightarrow> json_foreach f xs j')"

text \<open>Lines 208 to 212: the json value of an event's attribute map.\<close>

definition attributesJson :: "string std_map \<Rightarrow> json option" where
  "attributesJson m = json_foreach (\<lambda>kv j. json_assign (fst kv) (JString (snd kv)) j) m JNull"

text \<open>Lines 203 to 213: the json value of one event.\<close>

definition msgJson :: "(int \<Rightarrow> string) \<Rightarrow> LogMessage \<Rightarrow> json option" where
  "msgJson strftime_gmtime msg =
     (case json_assign ''timestamp'' (JString (timePointToString strftime_gmtime (timestamp msg))) JNull of
        None \<Rightarrow> None
      | Some j1 \<Rightarrow>
     (case json_assign ''body'' (JString (body msg)) j1 of
        None \<Rightarrow> None
      | Some j2 \<Rightarrow>
     (case json_assign ''level'' (JString (logLevelToString (level msg))) j2 of
        None \<Rightarrow> None
      | Some j3 \<Rightarrow>
     (case attributesJson (attributes msg) of
        None \<Rightarrow> None
      | Some a \<Rightarrow> json_assign ''attributes'' a j3))))"

text \<open>Lines 196 to 218: the document that is posted for a batch.\<close>

definition jsonPayload :: "Logger \<Rightarrow> (int \<Rightarrow> string) \<Rightarrow> LogMessage list \<Rightarrow> json option" where
  "jsonPayload L strftime_gmtime b =
     (case json_assign ''token'' (JString (l_token L)) JNull of
        None \<Rightarrow> None
      | Some j1 \<Rightarrow>
     (case json_assign ''type'' (JString ''logs'') j1 of
        None \<Rightarrow> None
      | Some j2 \<Rightarrow>
     (case json_foreach
             (\<lambda>msg arr. case msgJson strftime_gmtime msg of
                           None \<Rightarrow> None
                         | Some mj \<Rightarrow> json_push_back mj arr)
             b (JArray []) of
        None \<Rightarrow> None
      | Some logsArray \<Rightarrow> json_assign ''logs'' logsArray j2)))"

text \<open>Lines 196 to 230 of \<^verbatim>\<open>sendBatch\<close>: the request that is set up for a batch,
  a POST of the document to the target URL with one header. The document is handed
  over as the json value; its bytes are what the library's \<^verbatim>\<open>dump()\<close> prints.\<close>

definition buildRequest :: "Logger \<Rightarrow> (int \<Rightarrow> string) \<Rightarrow> LogMessage list \<Rightarrow> HttpPost option" where
  "buildRequest L strftime_gmtime b =
     (case jsonPayload L strftime_gmtime b of
        None \<Rightarrow> None
      | Some payload \<Rightarrow>
          Some \<lparr> url = l_endpoint L,
                 header = ''Content-Type: application/json'',
                 postFields = payload \<rparr>)"

text \<open>\<^verbatim>\<open>Logger::sendBatch\<close>, applied to the local \<^verbatim>\<open>batch\<close> of
  \<^verbatim>\<open>runBatcher\<close>. An empty batch returns at once. Otherwise the request is
  built and handed to libcurl (\<^verbatim>\<open>curl_easy_init\<close> is taken to give a handle;
  the transfer's outcome only goes to \<^verbatim>\<open>std::cerr\<close>) and the batch is cleared. An exception of the json library
  would leave \<^verbatim>\<open>runBatcher\<close>: the worker is gone and nothing is posted.\<close>

definition sendBatch :: "Logger \<Rightarrow> (int \<Rightarrow> string) \<Rightarrow> LoggerState \<Rightarrow> LoggerState" where
  "sendBatch L strftime_gmtime s =
     (if batch s = [] then s
      else case buildRequest L strftime_gmtime (batch s) of
             None \<Rightarrow> s\<lparr> workerExited := True \<rparr>
           | Some request \<Rightarrow> s\<lparr> posted := posted s @ [request], batch := [] \<rparr>)"

section \<open>The worker (Logger::runBatcher) and Logger::shutdown\<close>

text \<open>Lines 167 to 171: the inner loop moves events from the front of the queue to the
  back of the batch while the queue is not empty and the batch is below
  \<^verbatim>\<open>maxBatchSize_\<close>. The result is the queue and the batch after the loop.\<close>

fun drain :: "nat \<Rightarrow> LogMessage list \<Rightarrow> LogMessage list \<Rightarrow> LogMessage list \<times> LogMessage list" where
  "drain maxBatchSize [] b = ([], b)"
| "drain maxBatchSize (front # q) b =
     (if length b < maxBatchSize then drain maxBatchSize q (b @ [front]) else (front # q, b))"

text \<open>
  One turn of the outer loop of \<^verbatim>\<open>runBatcher\<close>, lines 154 to 185. The queue is
  locked from the wait to the end of the inner loop, so no call of \<^verbatim>\<open>logMessage\<close>
  falls into that part, and the rest of the turn does not touch the queue: a turn
  is one step. \<open>deadlinePassed\<close> is the outcome of \<^verbatim>\<open>now >= nextSendTime\<close> in
  line 180. \<^verbatim>\<open>wait_until\<close> returns when the queue is not empty or the stop flag
  is set, or else at the deadline; so with an empty queue, no stop flag and the
  deadline not passed the worker is still waiting, and the state stays as it is.
  Once the loop is left, the thread has ended.
\<close>

definition runBatcher_turn ::
  "Logger \<Rightarrow> (int \<Rightarrow> string) \<Rightarrow> bool \<Rightarrow> LoggerState \<Rightarrow> LoggerState" where
  "runBatcher_turn L strftime_gmtime deadlinePassed s =
     (if workerExited s then s
      else if logQueue s = [] \<and> \<not> stopWorker s \<and> \<not> deadlinePassed then s
      else if stopWorker s \<and> logQueue s = [] then
        (if batch s \<noteq> [] then sendBatch L strftime_gmtime s else s)\<lparr> workerExited := True \<rparr>
      else
        let (q, b) = drain (l_maxBatchSize L) (logQueue s) (batch s);
            s1 = s\<lparr> logQueue := q, batch := b \<rparr>;
            s2 = (if length (batch s1) \<ge> l_maxBatchSize L then sendBatch L strftime_gmtime s1 else s1);
            s3 = (if deadlinePassed \<and> batch s2 \<noteq> [] then sendBatch L strftime_gmtime s2 else s2)
        in s3)"

text \<open>
  \<^verbatim>\<open>workerThread_.join()\<close>: the caller waits while the worker takes its turns,
  with no further call of \<^verbatim>\<open>logMessage\<close> in between. \<open>clock i\<close> is the outcome
  of the deadline test in the \<open>i\<close>-th of these turns. The result is \<open>None\<close> when the
  worker never leaves its loop.
\<close>

partial_function (option) joinWorker ::
  "Logger \<Rightarrow> (int \<Rightarrow> string) \<Rightarrow> (nat \<Rightarrow> bool) \<Rightarrow> nat \<Rightarrow> LoggerState \<Rightarrow> LoggerState option" where
  "joinWorker L strftime_gmtime clock i s =
     (if workerExited s then Some s
      else joinWorker L strftime_gmtime clock (Suc i)
             (runBatcher_turn L strftime_gmtime (clock i) s))"

text \<open>\<^verbatim>\<open>Logger::shutdown\<close>: a second call returns at once; the first sets the stop
  flag, wakes the worker and joins it.\<close>

definition shutdown ::
  "Logger \<Rightarrow> (int \<Rightarrow> string) \<Rightarrow> (nat \<Rightarrow> bool) \<Rightarrow> LoggerState \<Rightarrow> LoggerState option" where
  "shutdown L strftime_gmtime clock s =
     (if stopWorker s then Some s
      else joinWorker L strftime_gmtime clock 0 (s\<lparr> stopWorker := True \<rparr>))"

section \<open>Runs of a logger\<close>

text \<open>
  What can happen to a logger, one step at a time: a call of one of the four logging
  methods (with the reading of the system clock in it), a turn of the worker (with
  the outcome of its deadline test), and the first half of \<^verbatim>\<open>shutdown\<close>, which
  sets the stop flag under the lock.
\<close>

datatype Step =
    CallDebug int string "Attribute list"
  | CallInfo int string "Attribute list"
  | CallWarn int string "Attribute list"
  | CallError int string "string option" "Attribute list"
  | WorkerTurn bool
  | RequestStop

fun step :: "Logger \<Rightarrow> (int \<Rightarrow> string) \<Rightarrow> Step \<Rightarrow> LoggerState \<Rightarrow> LoggerState" where
  "step L tf (CallDebug now message attrs) s = debug L now message attrs s"
| "step L tf (CallInfo now message attrs) s = info L now message attrs s"
| "step L tf (CallWarn now message attrs) s = warn L now message attrs s"
| "step L tf (CallError now message err attrs) s = error L now message err attrs s"
| "step L tf (WorkerTurn deadlinePassed) s = runBatcher_turn L tf deadlinePassed s"
| "step L tf RequestStop s = s\<lparr> stopWorker := True \<rparr>"

definition run :: "Logger \<Rightarrow> (int \<Rightarrow> string) \<Rightarrow> Step list \<Rightarrow> LoggerState \<Rightarrow> LoggerState" where
  "run L tf steps s = fold (step L tf) steps s"

section \<open>Definitions for the statements\<close>

text \<open>
  The attribute map of an event in the specification's words, as a finite map:
  start with the single entry \<open>service.name\<close>, then the caller's attributes in order,
  a later write overwriting an earlier one (so the last occurrence of a key wins), then
  the \<open>error\<close> entry when the call carries an error.
\<close>

definition spec_attributes :: "string \<Rightarrow> Attribute list \<Rightarrow> string option \<Rightarrow> (string \<rightharpoonup> string)" where
  "spec_attributes serviceName attrs err =
     ([''service.name'' \<mapsto> serviceName]
        ++ map_of (rev (map (\<lambda>a. (attr_key a, attr_value a)) attrs)))
        ++ (case err of None \<Rightarrow> Map.empty | Some w \<Rightarrow> [''error'' \<mapsto> w])"

text \<open>A logger for the examples: passthrough on, noop off, batches of two.\<close>

definition exampleLogger :: Logger where
  "exampleLogger = Logger_ctor ''svc'' ''example.com'' ''tk'' True False False 2 1000"












section \<open>Auxiliary lemmas\<close>

subsection \<open>std::map\<close>


lemma map_of_map_assign: "map_of (map_assign k v m) = (map_of m)(k \<mapsto> v)"
  by (induction m) (auto simp: fun_upd_twist)

lemma keys_map_assign: "fst ` set (map_assign k v m) = insert k (fst ` set m)"
  by (induction k v m rule: map_assign.induct) (simp_all add: insert_commute)

lemma is_std_map_Nil: "is_std_map []"
  by (simp add: is_std_map_def)

lemma is_std_map_map_assign: "is_std_map m \<Longrightarrow> is_std_map (map_assign k v m)"
proof (induction m)
  case Nil
  then show ?case by (simp add: is_std_map_def)
next
  case (Cons a m)
  obtain k' v' where a: "a = (k', v')" by (cases a)
  from Cons.prems have tl: "is_std_map m" and hd: "\<forall>x\<in>fst ` set m. k' < x"
    by (auto simp: is_std_map_def a)
  have IH: "is_std_map (map_assign k v m)" using Cons.IH tl .
  show ?case
  proof (cases "k < k'")
    case True
    then show ?thesis using Cons.prems hd by (auto simp: is_std_map_def a)
  next
    case False
    show ?thesis
    proof (cases "k = k'")
      case True
      then show ?thesis using Cons.prems by (simp add: is_std_map_def a)
    next
      case ne: False
      with False have lt: "k' < k" by simp
      have "\<forall>x\<in>fst ` set (map_assign k v m). k' < x"
        unfolding keys_map_assign using hd lt by blast
      then show ?thesis using IH False ne by (auto simp: is_std_map_def a)
    qed
  qed
qed


subsection \<open>logMessage\<close>

lemma fold_assign_map_of:
  "map_of (fold (\<lambda>attr m. map_assign (attr_key attr) (attr_value attr) m) attrs a0)
     = map_of a0 ++ map_of (rev (map (\<lambda>a. (attr_key a, attr_value a)) attrs))"
proof (induction attrs arbitrary: a0)
  case Nil
  show ?case by simp
next
  case (Cons a attrs)
  show ?case
    by (simp add: Cons.IH map_of_map_assign map_add_upd_left map_add_def fun_eq_iff
        split: option.splits)
qed

lemma fold_assign_std_map:
  "is_std_map a0 \<Longrightarrow>
   is_std_map (fold (\<lambda>attr m. map_assign (attr_key attr) (attr_value attr) m) attrs a0)"
  by (induction attrs arbitrary: a0) (simp_all add: is_std_map_map_assign)

lemma eventAttributes_std_map: "is_std_map (eventAttributes L err attrs)"
  unfolding eventAttributes_def Let_def
  by (cases err) (simp_all only: option.case fold_assign_std_map is_std_map_map_assign is_std_map_Nil)

lemma eventAttributes_map_of:
  "map_of (eventAttributes L err attrs) = spec_attributes (l_serviceName L) attrs err"
  by (cases err)
     (simp_all add: eventAttributes_def spec_attributes_def Let_def fold_assign_map_of
       map_of_map_assign)




lemma fold_oss:
  "fold (\<lambda>a oss. oss @ attr_key a @ ''='' @ attr_value a @ '' '') attrs oss0
     = oss0 @ concat (map (\<lambda>a. attr_key a @ ''='' @ attr_value a @ '' '') attrs)"
  by (induction attrs arbitrary: oss0) simp_all

lemma passthroughLine_eq:
  "passthroughLine lvl message attrs =
     ''['' @ logLevelToString lvl @ ''] '' @ message @ '' {''
       @ concat (map (\<lambda>a. attr_key a @ ''='' @ attr_value a @ '' '') attrs) @ ''}''"
  unfolding passthroughLine_def fold_oss by simp

lemma logMessage_queue:
  "\<not> l_noop L \<Longrightarrow>
   logQueue (logMessage L now lvl message err attrs s) =
     logQueue s @ [\<lparr> timestamp = now, body = message, level = lvl,
                      attributes = eventAttributes L err attrs \<rparr>]"
  by (simp add: logMessage_def logPassthrough_def Let_def)

lemma logMessage_cout:
  "cout (logMessage L now lvl message err attrs s) =
     (if l_passthrough L \<and> \<not> l_noop L then cout s @ [passthroughLine lvl message attrs]
      else cout s)"
  by (simp add: logMessage_def logPassthrough_def Let_def)

lemma logMessage_noop: "l_noop L \<Longrightarrow> logMessage L now lvl message err attrs s = s"
  by (simp add: logMessage_def)

subsection \<open>The posted document\<close>












subsection \<open>The worker\<close>

lemma sendBatch_empty: "batch s = [] \<Longrightarrow> sendBatch L tf s = s"
  by (simp add: sendBatch_def)

lemma runBatcher_turn_idle:
  assumes "logQueue s = []" and "batch s = []"
  shows "logQueue (runBatcher_turn L tf d s) = []
       \<and> batch (runBatcher_turn L tf d s) = []
       \<and> posted (runBatcher_turn L tf d s) = posted s"
  using assms by (simp add: runBatcher_turn_def sendBatch_empty Let_def)

lemma step_noop:
  assumes "l_noop L" and "logQueue s = []" and "batch s = []"
  shows "logQueue (step L tf e s) = [] \<and> batch (step L tf e s) = []
       \<and> posted (step L tf e s) = posted s"
  using assms
  by (cases e)
     (simp_all add: debug_def info_def warn_def error_def logMessage_noop runBatcher_turn_idle)

lemma run_noop:
  assumes "l_noop L" and "logQueue s = []" and "batch s = []"
  shows "logQueue (run L tf steps s) = [] \<and> batch (run L tf steps s) = []
       \<and> posted (run L tf steps s) = posted s"
  using assms(2,3)
proof (induction steps arbitrary: s)
  case Nil
  then show ?case by (simp add: run_def)
next
  case (Cons e steps)
  have st: "logQueue (step L tf e s) = [] \<and> batch (step L tf e s) = []
       \<and> posted (step L tf e s) = posted s"
    using step_noop [OF assms(1) Cons.prems] .
  have "logQueue (run L tf steps (step L tf e s)) = []
      \<and> batch (run L tf steps (step L tf e s)) = []
      \<and> posted (run L tf steps (step L tf e s)) = posted (step L tf e s)"
    using Cons.IH st by blast
  with st show ?case by (simp add: run_def)
qed


lemma runBatcher_turn_exit:
  assumes "\<not> workerExited s" and "stopWorker s" and "logQueue s = []"
  shows "runBatcher_turn L tf d s =
           (if batch s \<noteq> [] then sendBatch L tf s else s)\<lparr> workerExited := True \<rparr>"
  using assms by (simp add: runBatcher_turn_def)




lemma joinWorker_exited: "workerExited s \<Longrightarrow> joinWorker L tf clock i s = Some s"
  by (subst joinWorker.simps) simp

lemma joinWorker_turn:
  "\<not> workerExited s \<Longrightarrow>
   joinWorker L tf clock i s = joinWorker L tf clock (Suc i) (runBatcher_turn L tf (clock i) s)"
  by (subst joinWorker.simps) simp






subsection \<open>Runs\<close>









lemma shutdown_idle:
  assumes "logQueue s = []" and "batch s = []"
  shows "\<exists>s'. shutdown L tf clock s = Some s' \<and> posted s' = posted s \<and> logQueue s' = []"
proof (cases "stopWorker s \<or> workerExited s")
  case True
  then show ?thesis using assms(1)
    by (auto simp: shutdown_def joinWorker_exited)
next
  case False
  let ?s = "s\<lparr> stopWorker := True \<rparr>"
  have ex: "\<not> workerExited ?s" and st: "stopWorker ?s" and q: "logQueue ?s = []"
    using False assms(1) by simp_all
  have "runBatcher_turn L tf (clock 0) ?s = ?s\<lparr> workerExited := True \<rparr>"
    using runBatcher_turn_exit [OF ex st q] assms(2) by simp
  then have "joinWorker L tf clock 0 ?s = Some (?s\<lparr> workerExited := True \<rparr>)"
    using joinWorker_turn [OF ex, of L tf clock 0] by (simp add: joinWorker_exited)
  then show ?thesis using False assms(1) by (simp add: shutdown_def)
qed

subsection \<open>The example run\<close>




subsection \<open>The wire format\<close>





















section \<open>Results\<close>

subsection \<open>The target URL\<close>

text \<open>
  Claim C9. For every endpoint string the target URL that the constructor stores is
  \<open>scheme://endpoint/api/message\<close>, where the scheme is \<open>http\<close> exactly when insecure
  mode is configured and \<open>https\<close> otherwise; with \<open>insecure = true\<close> and endpoint
  \<open>example.com\<close> it is \<open>http://example.com/api/message\<close>.
\<close>

theorem C9_target_url:
  "l_endpoint (Logger_ctor name endpoint token passthrough insecure noop maxBatchSize batchInterval)
     = formatEndpoint endpoint insecure
   \<and> formatEndpoint endpoint insecure
     = (if insecure then ''http'' else ''https'') @ ''://'' @ endpoint @ ''/api/message''
   \<and> formatEndpoint ''example.com'' True = ''http://example.com/api/message''"
  by (simp add: Logger_ctor_def formatEndpoint_def)

subsection \<open>Defaults\<close>

text \<open>
  Claim C8, as the code has it. A default-constructed builder holds passthrough true,
  insecure false, noop false, maxBatchSize 1000 and batchInterval 100 ms, and
  \<open>build\<close> hands exactly these to the constructor (also after the setters of the
  README's example). The constructor's own default arguments are passthrough false,
  insecure false, noop false, maxBatchSize 100 and batchInterval 100 ms, and a direct
  construction with three arguments gets exactly these.
\<close>

theorem C8_defaults:
  "LoggerBuilder_ctor =
     \<lparr> b_serviceName = ''my_server'', b_endpoint = ''ingress.vigilant.run'',
       b_token = ''tk_1234567890'', b_passthrough = True, b_insecure = False,
       b_noop = False, b_maxBatchSize = 1000, b_batchInterval = 100 \<rparr>
   \<and> build LoggerBuilder_ctor =
       Logger_ctor ''my_server'' ''ingress.vigilant.run'' ''tk_1234567890'' True False False 1000 100
   \<and> build (withToken token (withName name LoggerBuilder_ctor)) =
       Logger_ctor name ''ingress.vigilant.run'' token True False False 1000 100
   \<and> Logger_default_args =
       \<lparr> default_passthrough = False, default_insecure = False, default_noop = False,
         default_maxBatchSize = 100, default_batchInterval = 100 \<rparr>
   \<and> Logger_ctor3 name endpoint token =
       Logger_ctor name endpoint token False False False 100 100
   \<and> l_passthrough (build LoggerBuilder_ctor) = True
   \<and> l_maxBatchSize (build LoggerBuilder_ctor) = 1000
   \<and> l_batchInterval (build LoggerBuilder_ctor) = 100
   \<and> l_passthrough (Logger_ctor3 name endpoint token) = False
   \<and> l_maxBatchSize (Logger_ctor3 name endpoint token) = 100
   \<and> l_batchInterval (Logger_ctor3 name endpoint token) = 100"
  by (simp add: LoggerBuilder_ctor_def build_def withToken_def withName_def
      Logger_default_args_def Logger_ctor3_def Logger_ctor_def)

text \<open>The claim as the specification states it gives passthrough the default true for
  both entry points; a direct construction with the default arguments has it false.\<close>

theorem C8_direct_passthrough_counterexample:
  "\<not> (default_passthrough Logger_default_args = True
      \<and> l_passthrough (Logger_ctor3 ''svc'' ''example.com'' ''tk'') = True)"
  by (simp add: Logger_default_args_def Logger_ctor3_def Logger_ctor_def)

subsection \<open>The attributes of an event\<close>

text \<open>
  Claim C5, as the code has it. Every call of debug, info, warn or error on a logger
  that is not a noop appends one event to the queue; its attribute map is a
  \<^verbatim>\<open>std::map\<close> that equals, as a map: the single entry \<open>service.name\<close> with the
  configured service name, then the caller's attributes inserted in order with a later
  write overwriting an earlier one, then, when the call passes an error object (only
  \<open>error\<close> can, and it need not), the entry \<open>error\<close> with the text of the error.
\<close>

theorem C5_event_attributes:
  assumes "\<not> l_noop L"
  shows "logQueue (debug L now message attrs s) =
           logQueue s @ [\<lparr> timestamp = now, body = message, level = Debug,
                            attributes = eventAttributes L None attrs \<rparr>]
       \<and> logQueue (info L now message attrs s) =
           logQueue s @ [\<lparr> timestamp = now, body = message, level = Info,
                            attributes = eventAttributes L None attrs \<rparr>]
       \<and> logQueue (warn L now message attrs s) =
           logQueue s @ [\<lparr> timestamp = now, body = message, level = Warn,
                            attributes = eventAttributes L None attrs \<rparr>]
       \<and> logQueue (error L now message err attrs s) =
           logQueue s @ [\<lparr> timestamp = now, body = message, level = Error,
                            attributes = eventAttributes L err attrs \<rparr>]
       \<and> is_std_map (eventAttributes L err attrs)
       \<and> map_of (eventAttributes L err attrs) = spec_attributes (l_serviceName L) attrs err"
  using assms
  by (simp add: debug_def info_def warn_def error_def logMessage_queue
      eventAttributes_std_map eventAttributes_map_of)

text \<open>An instance: the caller's \<open>service.name\<close> overwrites the reserved one, the
  second \<open>z\<close> wins, and the error's text is added.\<close>

theorem C5_event_attributes_witness:
  "\<not> l_noop exampleLogger
   \<and> logQueue (error exampleLogger 7 ''failed'' (Some ''boom'')
        [\<lparr> attr_key = ''z'', attr_value = ''1'' \<rparr>,
         \<lparr> attr_key = ''service.name'', attr_value = ''mine'' \<rparr>,
         \<lparr> attr_key = ''z'', attr_value = ''2'' \<rparr>] initialState)
     = [\<lparr> timestamp = 7, body = ''failed'', level = Error,
          attributes = [(''error'', ''boom''), (''service.name'', ''mine''), (''z'', ''2'')] \<rparr>]
   \<and> map_of [(''error'', ''boom''), (''service.name'', ''mine''), (''z'', ''2'')]
     = spec_attributes ''svc''
        [\<lparr> attr_key = ''z'', attr_value = ''1'' \<rparr>,
         \<lparr> attr_key = ''service.name'', attr_value = ''mine'' \<rparr>,
         \<lparr> attr_key = ''z'', attr_value = ''2'' \<rparr>] (Some ''boom'')"
proof -
  have h: "\<not> l_noop exampleLogger"
    by (simp add: exampleLogger_def Logger_ctor_def)
  have e: "eventAttributes exampleLogger (Some ''boom'')
        [\<lparr> attr_key = ''z'', attr_value = ''1'' \<rparr>,
         \<lparr> attr_key = ''service.name'', attr_value = ''mine'' \<rparr>,
         \<lparr> attr_key = ''z'', attr_value = ''2'' \<rparr>]
       = [(''error'', ''boom''), (''service.name'', ''mine''), (''z'', ''2'')]"
    by (simp add: eventAttributes_def exampleLogger_def Logger_ctor_def)
  have n: "l_serviceName exampleLogger = ''svc''"
    by (simp add: exampleLogger_def Logger_ctor_def)
  show ?thesis
    using h C5_event_attributes [OF h, where now = 7 and message = "''failed''"
        and s = initialState and err = "Some ''boom''"
        and attrs = "[\<lparr> attr_key = ''z'', attr_value = ''1'' \<rparr>,
         \<lparr> attr_key = ''service.name'', attr_value = ''mine'' \<rparr>,
         \<lparr> attr_key = ''z'', attr_value = ''2'' \<rparr>]"]
    unfolding e n by (simp add: initialState_def)
qed

text \<open>The claim as the specification states it adds the \<open>error\<close> attribute to every
  error-level event; the call \<open>error("An error occurred")\<close> of the README passes no
  error object and its event has none.\<close>

theorem C5_error_without_object_counterexample:
  "logQueue (error exampleLogger 7 ''An error occurred'' None [] initialState)
     = [\<lparr> timestamp = 7, body = ''An error occurred'', level = Error,
          attributes = [(''service.name'', ''svc'')] \<rparr>]
   \<and> map_of [(''service.name'', ''svc'')] ''error'' = (None :: string option)"
  by (simp add: error_def logMessage_def logPassthrough_def eventAttributes_def
      exampleLogger_def Logger_ctor_def initialState_def)

subsection \<open>Passthrough\<close>




text \<open>
  Claim C10. The passthrough line of a call is made of the level, the message and the
  caller's attributes alone, in the order the caller gave them, duplicates included:
  it does not change with the service name or with the error object, while the event
  that the same call queues has the injected \<open>service.name\<close> entry and, for a call
  with an error object, the \<open>error\<close> entry, also when the caller gave no attribute
  at all.
\<close>

theorem C10_passthrough_attributes:
  assumes "l_passthrough L" and "\<not> l_noop L"
  shows "cout (logMessage L now lvl message err attrs s) =
           cout s @ [''['' @ logLevelToString lvl @ ''] '' @ message @ '' {''
             @ concat (map (\<lambda>a. attr_key a @ ''='' @ attr_value a @ '' '') attrs) @ ''}'']
       \<and> cout (logMessage (L\<lparr> l_serviceName := name' \<rparr>) now lvl message err' attrs s) =
           cout (logMessage L now lvl message err attrs s)
       \<and> logQueue (logMessage L now lvl message err attrs s) =
           logQueue s @ [\<lparr> timestamp = now, body = message, level = lvl,
                            attributes = eventAttributes L err attrs \<rparr>]
       \<and> map_of (eventAttributes L None []) = [''service.name'' \<mapsto> l_serviceName L]
       \<and> map_of (eventAttributes L (Some w) []) =
           [''service.name'' \<mapsto> l_serviceName L, ''error'' \<mapsto> w]"
  using assms
  by (simp add: logMessage_cout logMessage_queue passthroughLine_eq eventAttributes_map_of
      spec_attributes_def)

theorem C10_passthrough_attributes_witness:
  "l_passthrough exampleLogger \<and> \<not> l_noop exampleLogger
   \<and> cout (logMessage exampleLogger 7 Error ''failed'' (Some ''boom'')
        [\<lparr> attr_key = ''b'', attr_value = ''1'' \<rparr>, \<lparr> attr_key = ''a'', attr_value = ''2'' \<rparr>,
         \<lparr> attr_key = ''b'', attr_value = ''3'' \<rparr>] initialState)
     = [''[ERROR] failed {b=1 a=2 b=3 }'']
   \<and> logQueue (logMessage exampleLogger 7 Error ''failed'' (Some ''boom'')
        [\<lparr> attr_key = ''b'', attr_value = ''1'' \<rparr>, \<lparr> attr_key = ''a'', attr_value = ''2'' \<rparr>,
         \<lparr> attr_key = ''b'', attr_value = ''3'' \<rparr>] initialState)
     = [\<lparr> timestamp = 7, body = ''failed'', level = Error,
          attributes = [(''a'', ''2''), (''b'', ''3''), (''error'', ''boom''), (''service.name'', ''svc'')] \<rparr>]"
proof -
  have p: "l_passthrough exampleLogger" and n: "\<not> l_noop exampleLogger"
    by (simp_all add: exampleLogger_def Logger_ctor_def)
  have e: "eventAttributes exampleLogger (Some ''boom'')
        [\<lparr> attr_key = ''b'', attr_value = ''1'' \<rparr>, \<lparr> attr_key = ''a'', attr_value = ''2'' \<rparr>,
         \<lparr> attr_key = ''b'', attr_value = ''3'' \<rparr>]
       = [(''a'', ''2''), (''b'', ''3''), (''error'', ''boom''), (''service.name'', ''svc'')]"
    by (simp add: eventAttributes_def exampleLogger_def Logger_ctor_def)
  show ?thesis
    using p n C10_passthrough_attributes [OF p n, where now = 7 and lvl = Error
        and message = "''failed''" and err = "Some ''boom''" and s = initialState
        and attrs = "[\<lparr> attr_key = ''b'', attr_value = ''1'' \<rparr>,
          \<lparr> attr_key = ''a'', attr_value = ''2'' \<rparr>, \<lparr> attr_key = ''b'', attr_value = ''3'' \<rparr>]"]
    unfolding e by (simp add: initialState_def)
qed

subsection \<open>The worker\<close>





subsection \<open>Noop\<close>

text \<open>
  Claim C4. For a noop logger, after any sequence of debug, info, warn and error
  calls, worker turns and stop requests from the constructed state, the queue is
  empty, the batch is empty and no request has been posted; a shutdown after it
  returns with still no request posted.
\<close>

theorem C4_noop_pipeline:
  assumes "l_noop L"
  shows "logQueue (run L tf steps initialState) = []
       \<and> batch (run L tf steps initialState) = []
       \<and> posted (run L tf steps initialState) = []
       \<and> (\<exists>s'. shutdown L tf clock (run L tf steps initialState) = Some s'
              \<and> posted s' = [] \<and> logQueue s' = [])"
proof -
  have i: "logQueue initialState = []" "batch initialState = []" "posted initialState = []"
    by (simp_all add: initialState_def)
  from run_noop [OF assms i(1,2), of tf steps]
  have r: "logQueue (run L tf steps initialState) = []"
    "batch (run L tf steps initialState) = []"
    "posted (run L tf steps initialState) = []"
    using i(3) by simp_all
  from shutdown_idle [OF r(1,2), of L tf clock] show ?thesis using r by simp
qed

theorem C4_noop_pipeline_witness:
  "l_noop (Logger_ctor ''svc'' ''example.com'' ''tk'' True False True 2 1000)
   \<and> posted (run (Logger_ctor ''svc'' ''example.com'' ''tk'' True False True 2 1000)
        (\<lambda>t. ''1970-01-01T00:00:00'')
        [CallInfo 1 ''a'' [], CallError 2 ''b'' (Some ''boom'') [], CallWarn 3 ''c'' [],
         WorkerTurn True, CallDebug 4 ''d'' [], RequestStop, WorkerTurn False]
        initialState) = []
   \<and> logQueue (run (Logger_ctor ''svc'' ''example.com'' ''tk'' True False True 2 1000)
        (\<lambda>t. ''1970-01-01T00:00:00'')
        [CallInfo 1 ''a'' [], CallError 2 ''b'' (Some ''boom'') [], CallWarn 3 ''c'' [],
         WorkerTurn True, CallDebug 4 ''d'' [], RequestStop, WorkerTurn False]
        initialState) = []"
proof -
  have h: "l_noop (Logger_ctor ''svc'' ''example.com'' ''tk'' True False True 2 1000)"
    by (simp add: Logger_ctor_def)
  show ?thesis
    using h C4_noop_pipeline [OF h] by simp
qed

subsection \<open>The posted document\<close>





end
